theory Spec2Isabelle
  imports Main
begin

section \<open>The Composio component of langflow\<close>

text \<open>
  A shallow embedding of \<^verbatim>\<open>ComposioAPIComponent\<close>
  (\<^verbatim>\<open>src/backend/base/langflow/components/composio/composio_api.py\<close>).
  The component is an adapter between the host framework, which hands it a
  \<^verbatim>\<open>build_config\<close> dictionary to mutate, and the vendor SDK, whose calls may raise.
  Both are made explicit: the dictionary and the sequence of vendor calls form the state
  that every method threads, and a raised exception is a value.
\<close>

subsection \<open>Strings\<close>

text \<open>
  Python strings are modelled as \<^typ>\<open>string\<close>. The identifiers the component handles
  (the keys of \<^verbatim>\<open>App.__annotations__\<close> and \<^verbatim>\<open>Action.__annotations__\<close>) are ASCII;
  \<^verbatim>\<open>str.lower\<close> is modelled on ASCII letters and leaves every other character alone.
\<close>

definition lower_char :: "char \<Rightarrow> char" where
  "lower_char c =
     (case map_of (zip ''ABCDEFGHIJKLMNOPQRSTUVWXYZ'' ''abcdefghijklmnopqrstuvwxyz'') c of
        None \<Rightarrow> c
      | Some d \<Rightarrow> d)"

definition lower :: "string \<Rightarrow> string" where
  "lower s = map lower_char s"

text \<open>\<^verbatim>\<open>s.startswith(p)\<close>\<close>

definition startswith :: "string \<Rightarrow> string \<Rightarrow> bool" where
  "startswith s p = (take (length p) s = p)"

text \<open>\<^verbatim>\<open>sub in s\<close> on strings: \<open>sub\<close> occurs in \<open>s\<close> as a contiguous block.\<close>

fun contains :: "string \<Rightarrow> string \<Rightarrow> bool" where
  "contains [] sub = (sub = [])"
| "contains (c # cs) sub = (startswith (c # cs) sub \<or> contains cs sub)"

text \<open>
  \<^verbatim>\<open>s.replace(old, new)\<close>: every occurrence of \<open>old\<close>, found from the left and without
  overlap, becomes \<open>new\<close>. With an empty \<open>old\<close> Python puts \<open>new\<close> before every character
  and at the end.
\<close>

function replace :: "string \<Rightarrow> string \<Rightarrow> string \<Rightarrow> string" where
  "replace s old new =
     (if old = [] then new @ concat (map (\<lambda>c. c # new) s)
      else if s = [] then []
      else if startswith s old then new @ replace (drop (length old) s) old new
      else hd s # replace (tl s) old new)"
  by pat_completeness auto
termination
  by (relation "measure (\<lambda>(s, old, new). length s)") auto

declare replace.simps [simp del]

subsection \<open>Exceptions\<close>

text \<open>
  Every exception the component can meet derives from \<^verbatim>\<open>Exception\<close>. The class matters
  for \<^verbatim>\<open>except NoItemsFound\<close> only; the string is what \<^verbatim>\<open>str(e)\<close> gives.
\<close>

datatype exn_class = NoItemsFound | KeyError | IndexError | AttributeError | OtherException

datatype exn = Exn (exn_cls: exn_class) (exn_str: string)

subsection \<open>The build configuration and the component\<close>

text \<open>
  \<^verbatim>\<open>build_config\<close> is a dictionary of field dictionaries. The values the component
  writes are strings and lists of strings.
\<close>

datatype pyval = PStr string | PList "string list"

type_synonym field = "string \<rightharpoonup> pyval"
type_synonym build_config = "string \<rightharpoonup> field"

text \<open>
  The attributes of \<^verbatim>\<open>self\<close> that the methods read. \<open>api_key\<close> is \<open>None\<close> when
  \<^verbatim>\<open>hasattr(self, "api_key")\<close> is false; an attribute that is present holds a string.
\<close>

record component =
  entity_id :: string
  api_key :: "string option"
  app_names :: string
  auth_status_config :: string
  action_names :: "string list"

subsection \<open>The vendor SDK\<close>

text \<open>
  The SDK is not part of the repository: it is a parameter of the model. Each of its
  operations either raises or returns. \<open>App_annotations\<close> and \<open>Action_annotations\<close> are
  \<^verbatim>\<open>list(App.__annotations__)\<close> and \<^verbatim>\<open>list(Action.__annotations__)\<close>, the vendor's
  catalogs in declaration order.
\<close>

datatype toolset = ToolSet string

datatype entity = Entity toolset string

record conn_request =
  req_app_name :: string
  req_auth_mode :: "string option"
  req_auth_config :: "(string \<times> string) list option"
  req_use_composio_auth :: bool
  req_force_new_integration :: bool

record 'tool vendor =
  v_ComposioToolSet :: "string \<Rightarrow> exn + unit"
  v_get_entity :: "toolset \<Rightarrow> string \<Rightarrow> exn + unit"
  v_get_connection :: "entity \<Rightarrow> string \<Rightarrow> exn + unit"
  v_get_connections :: "entity \<Rightarrow> exn + string list"
  v_apps_get :: "toolset \<Rightarrow> string \<Rightarrow> exn + string list"
  v_initiate_connection :: "entity \<Rightarrow> conn_request \<Rightarrow> exn + string"
  v_get_tools :: "toolset \<Rightarrow> string list \<Rightarrow> exn + 'tool list"
  App_annotations :: "string list"
  Action_annotations :: "string list"

text \<open>The vendor calls a run makes, in order.\<close>

datatype call =
    CallComposioToolSet string
  | CallGetEntity toolset string
  | CallGetConnection entity string
  | CallGetConnections entity
  | CallAppsGet toolset string
  | CallInitiateConnection entity conn_request
  | CallGetTools toolset "string list"

subsection \<open>State and control\<close>

text \<open>
  A method runs on a world: the \<^verbatim>\<open>build_config\<close> object it mutates in place and the
  log of vendor calls. It ends with a value or with a raised exception, and in both cases
  leaves a world behind, so an \<^verbatim>\<open>except\<close> block sees the mutations made before the raise.
\<close>

record world =
  config :: build_config
  calls :: "call list"

type_synonym 'a prog = "world \<Rightarrow> (exn + 'a) \<times> world"

definition ret :: "'a \<Rightarrow> 'a prog" where
  "ret x = (\<lambda>w. (Inr x, w))"

definition raise :: "exn \<Rightarrow> 'a prog" where
  "raise e = (\<lambda>w. (Inl e, w))"

definition andthen :: "'a prog \<Rightarrow> ('a \<Rightarrow> 'b prog) \<Rightarrow> 'b prog" where
  "andthen m f = (\<lambda>w. case m w of (Inl e, w') \<Rightarrow> (Inl e, w') | (Inr x, w') \<Rightarrow> f x w')"

text \<open>\<^verbatim>\<open>try: m  except C as e: h(e)\<close>, for the classes \<open>C\<close> accepted by \<open>catches\<close>.\<close>

definition try_except :: "'a prog \<Rightarrow> (exn \<Rightarrow> bool) \<Rightarrow> (exn \<Rightarrow> 'a prog) \<Rightarrow> 'a prog" where
  "try_except m catches h =
     (\<lambda>w. case m w of
        (Inl e, w') \<Rightarrow> if catches e then h e w' else (Inl e, w')
      | (Inr x, w') \<Rightarrow> (Inr x, w'))"

definition is_Exception :: "exn \<Rightarrow> bool" where
  "is_Exception e = True"

definition is_NoItemsFound :: "exn \<Rightarrow> bool" where
  "is_NoItemsFound e = (exn_cls e = NoItemsFound)"

text \<open>A vendor call is logged, then raises or returns what the vendor does.\<close>

definition vendor_call :: "call \<Rightarrow> exn + 'a \<Rightarrow> 'a prog" where
  "vendor_call c r = (\<lambda>w. (r, w\<lparr>calls := calls w @ [c]\<rparr>))"

text \<open>
  \<^verbatim>\<open>build_config[k1][k2] = v\<close>: the lookup of \<open>k1\<close> raises \<^verbatim>\<open>KeyError\<close> when the key is
  missing; the store into the field dictionary always succeeds.
\<close>

definition key_error :: "string \<Rightarrow> exn" where
  "key_error k = Exn KeyError ([CHR 0x27] @ k @ [CHR 0x27])"

definition setitem2 :: "string \<Rightarrow> string \<Rightarrow> pyval \<Rightarrow> unit prog" where
  "setitem2 k1 k2 v =
     (\<lambda>w. case config w k1 of
        None \<Rightarrow> (Inl (key_error k1), w)
      | Some f \<Rightarrow> (Inr (), w\<lparr>config := (config w)(k1 \<mapsto> f(k2 \<mapsto> v))\<rparr>))"

text \<open>Reading \<^verbatim>\<open>build_config[k1][k2]\<close> back; \<open>None\<close> when a key is missing.\<close>

definition lookup2 :: "world \<Rightarrow> string \<Rightarrow> string \<Rightarrow> pyval option" where
  "lookup2 w k1 k2 = (case config w k1 of None \<Rightarrow> None | Some f \<Rightarrow> f k2)"

text \<open>\<^verbatim>\<open>xs[0]\<close>\<close>

definition index0 :: "'a list \<Rightarrow> 'a prog" where
  "index0 xs = (case xs of [] \<Rightarrow> raise (Exn IndexError ''list index out of range'') | x # _ \<Rightarrow> ret x)"

subsection \<open>The methods\<close>

text \<open>
  \<^verbatim>\<open>_build_wrapper\<close>: \<^verbatim>\<open>ComposioToolSet(api_key=self.api_key)\<close>. Reading a missing
  attribute raises \<^verbatim>\<open>AttributeError\<close>.
\<close>

definition build_wrapper :: "component \<Rightarrow> 'tool vendor \<Rightarrow> toolset prog" where
  "build_wrapper self v =
     (case api_key self of
        None \<Rightarrow> raise (Exn AttributeError ''api_key'')
      | Some k \<Rightarrow>
          andthen (vendor_call (CallComposioToolSet k) (v_ComposioToolSet v k)) (\<lambda>_.
          ret (ToolSet k)))"

text \<open>\<^verbatim>\<open>toolset.client.get_entity(id=self.entity_id)\<close>\<close>

definition get_entity :: "'tool vendor \<Rightarrow> toolset \<Rightarrow> string \<Rightarrow> entity prog" where
  "get_entity v toolset i =
     andthen (vendor_call (CallGetEntity toolset i) (v_get_entity v toolset i)) (\<lambda>_.
     ret (Entity toolset i))"

text \<open>\<^verbatim>\<open>entity.get_connection(app=app)\<close>\<close>

definition get_connection :: "'tool vendor \<Rightarrow> entity \<Rightarrow> string \<Rightarrow> unit prog" where
  "get_connection v entity app = vendor_call (CallGetConnection entity app) (v_get_connection v entity app)"

text \<open>\<^verbatim>\<open>toolset.client.apps.get(app).auth_schemes\<close>, as the list of the schemes' \<^verbatim>\<open>auth_mode\<close>\<close>

definition apps_get_auth_schemes :: "'tool vendor \<Rightarrow> toolset \<Rightarrow> string \<Rightarrow> string list prog" where
  "apps_get_auth_schemes v toolset app = vendor_call (CallAppsGet toolset app) (v_apps_get v toolset app)"

text \<open>\<^verbatim>\<open>entity.initiate_connection(...)\<close>, giving the connection request's \<^verbatim>\<open>redirectUrl\<close>\<close>

definition initiate_connection :: "'tool vendor \<Rightarrow> entity \<Rightarrow> conn_request \<Rightarrow> string prog" where
  "initiate_connection v entity req =
     vendor_call (CallInitiateConnection entity req) (v_initiate_connection v entity req)"

text \<open>\<^verbatim>\<open>_initiate_default_connection\<close>\<close>

definition default_request :: "string \<Rightarrow> conn_request" where
  "default_request app =
     \<lparr>req_app_name = app, req_auth_mode = None, req_auth_config = None,
      req_use_composio_auth = True, req_force_new_integration = True\<rparr>"

definition initiate_default_connection :: "'tool vendor \<Rightarrow> entity \<Rightarrow> string \<Rightarrow> string prog" where
  "initiate_default_connection v entity app = initiate_connection v entity (default_request app)"

text \<open>\<^verbatim>\<open>_process_api_key_auth\<close>\<close>

definition api_key_request :: "string \<Rightarrow> string \<Rightarrow> conn_request" where
  "api_key_request app key =
     \<lparr>req_app_name = app, req_auth_mode = Some ''API_KEY'',
      req_auth_config = Some [(''api_key'', key)],
      req_use_composio_auth = False, req_force_new_integration = True\<rparr>"

definition process_api_key_auth :: "component \<Rightarrow> 'tool vendor \<Rightarrow> entity \<Rightarrow> string \<Rightarrow> string prog" where
  "process_api_key_auth self v entity app =
     (let auth_status_config = auth_status_config self;
          is_url = (contains auth_status_config ''http'' \<or> contains auth_status_config ''https'');
          is_different_app =
            (contains auth_status_config ''CONNECTED'' \<and> \<not> contains auth_status_config app);
          is_default_api_key_message = contains auth_status_config ''API Key''
      in if is_different_app \<or> is_url \<or> is_default_api_key_message then ret ''Enter API Key''
         else if \<not> is_default_api_key_message then
           andthen (initiate_connection v entity (api_key_request app (auth_status_config))) (\<lambda>_.
           ret (app @ '' CONNECTED''))
         else ret ''Enter API Key'')"

text \<open>
  \<^verbatim>\<open>_handle_authorization_failure\<close>. \<open>authorization_fallback\<close> is the body of its
  \<^verbatim>\<open>try\<close>; the \<^verbatim>\<open>except Exception\<close> block returns the constant \<^verbatim>\<open>"Error"\<close>.
\<close>

definition authorization_fallback ::
  "component \<Rightarrow> 'tool vendor \<Rightarrow> toolset \<Rightarrow> entity \<Rightarrow> string \<Rightarrow> string prog" where
  "authorization_fallback self v toolset entity app =
     andthen (apps_get_auth_schemes v toolset app) (\<lambda>auth_schemes.
     andthen (index0 auth_schemes) (\<lambda>scheme.
     if scheme = ''API_KEY'' then process_api_key_auth self v entity app
     else initiate_default_connection v entity app))"

definition handle_authorization_failure ::
  "component \<Rightarrow> 'tool vendor \<Rightarrow> toolset \<Rightarrow> entity \<Rightarrow> string \<Rightarrow> string prog" where
  "handle_authorization_failure self v toolset entity app =
     try_except (authorization_fallback self v toolset entity app) is_Exception
       (\<lambda>_. ret ''Error'')"

text \<open>\<^verbatim>\<open>_check_for_authorization\<close>\<close>

definition check_for_authorization :: "component \<Rightarrow> 'tool vendor \<Rightarrow> string \<Rightarrow> string prog" where
  "check_for_authorization self v app =
     andthen (build_wrapper self v) (\<lambda>toolset.
     andthen (get_entity v toolset (entity_id self)) (\<lambda>entity.
     try_except
       (andthen (get_connection v entity app) (\<lambda>_.
        ret (app @ '' CONNECTED'')))
       is_Exception
       (\<lambda>_. handle_authorization_failure self v toolset entity app)))"

text \<open>
  \<^verbatim>\<open>_get_connected_app_names_for_entity\<close>. The source builds a set and lists it; the order
  of that list is unspecified and only membership is used.
\<close>

definition get_connected_app_names_for_entity :: "component \<Rightarrow> 'tool vendor \<Rightarrow> string list prog" where
  "get_connected_app_names_for_entity self v =
     andthen (build_wrapper self v) (\<lambda>toolset.
     andthen (get_entity v toolset (entity_id self)) (\<lambda>entity.
     andthen (vendor_call (CallGetConnections entity) (v_get_connections v entity)) (\<lambda>connections.
     ret (remdups connections))))"

text \<open>\<^verbatim>\<open>_update_app_names_with_connected_status\<close>\<close>

definition connected_options :: "string list \<Rightarrow> string list \<Rightarrow> string list" where
  "connected_options apps connected_app_names =
     map (\<lambda>app_name. app_name @ ''_CONNECTED'')
       (filter (\<lambda>app_name. lower app_name \<in> set connected_app_names) apps)"

definition non_connected_options :: "string list \<Rightarrow> string list \<Rightarrow> string list" where
  "non_connected_options apps connected_app_names =
     filter (\<lambda>app_name. lower app_name \<notin> set connected_app_names) apps"

definition update_app_names_with_connected_status :: "component \<Rightarrow> 'tool vendor \<Rightarrow> unit prog" where
  "update_app_names_with_connected_status self v =
     andthen (get_connected_app_names_for_entity self v) (\<lambda>connected_app_names.
     let app_names = connected_options (App_annotations v) connected_app_names;
         non_connected_app_names = non_connected_options (App_annotations v) connected_app_names
     in andthen (setitem2 ''app_names'' ''options'' (PList (app_names @ non_connected_app_names))) (\<lambda>_.
        setitem2 ''app_names'' ''value'' (PStr (case app_names of [] \<Rightarrow> '''' | a # _ \<Rightarrow> a))))"

text \<open>\<^verbatim>\<open>_get_normalized_app_name\<close>\<close>

definition get_normalized_app_name :: "component \<Rightarrow> string" where
  "get_normalized_app_name self = replace (replace (app_names self) ''_CONNECTED'' '''') ''_connected'' ''''"

text \<open>
  \<^verbatim>\<open>update_build_config\<close>. \<open>auth_status_check\<close> is the body of the outer \<^verbatim>\<open>try\<close> (the
  lines under \<^verbatim>\<open># Check auth status\<close>), \<open>auth_scheme_check\<close> the block of its inner
  \<^verbatim>\<open>except NoItemsFound\<close>, \<open>auth_status_error\<close> the outer \<^verbatim>\<open>except Exception\<close> block,
  \<open>update_action_names\<close> the lines under \<^verbatim>\<open># Update action names\<close>. The returned
  dictionary is the one passed in, mutated: it is the \<open>config\<close> of the final world.
  \<open>field_value\<close> is not read by the source. Calls of the logger are left out: they do
  not change what is returned or raised.
\<close>

definition auth_scheme_check :: "'tool vendor \<Rightarrow> toolset \<Rightarrow> entity \<Rightarrow> string \<Rightarrow> unit prog" where
  "auth_scheme_check v toolset entity app_name =
     andthen (apps_get_auth_schemes v toolset app_name) (\<lambda>auth_schemes.
     andthen (index0 auth_schemes) (\<lambda>scheme.
     if scheme = ''API_KEY'' then
       andthen (setitem2 ''auth_status'' ''value'' (PStr ''Enter API Key'')) (\<lambda>_.
       setitem2 ''auth_link'' ''value'' (PStr ''''))
     else
       andthen (initiate_default_connection v entity app_name) (\<lambda>auth_url.
       andthen (setitem2 ''auth_link'' ''value'' (PStr auth_url)) (\<lambda>_.
       setitem2 ''auth_status'' ''value'' (PStr ''Click link to authenticate'')))))"

definition auth_status_check :: "component \<Rightarrow> 'tool vendor \<Rightarrow> string \<Rightarrow> unit prog" where
  "auth_status_check self v app_name =
     andthen (build_wrapper self v) (\<lambda>toolset.
     andthen (get_entity v toolset (entity_id self)) (\<lambda>entity.
     try_except
       (andthen (get_connection v entity app_name) (\<lambda>_.
        andthen (setitem2 ''auth_status'' ''value'' (PStr (app_name @ '' CONNECTED''))) (\<lambda>_.
        setitem2 ''auth_link'' ''value'' (PStr ''''))))
       is_NoItemsFound
       (\<lambda>_. auth_scheme_check v toolset entity app_name)))"

definition auth_status_error :: "exn \<Rightarrow> unit prog" where
  "auth_status_error e =
     andthen (setitem2 ''auth_link'' ''value'' (PStr '''')) (\<lambda>_.
     setitem2 ''auth_status'' ''value'' (PStr (''Error: '' @ exn_str e)))"

definition app_action_names :: "string list \<Rightarrow> string \<Rightarrow> string list" where
  "app_action_names all_action_names app_name =
     filter (\<lambda>action_name. startswith (lower action_name) (lower app_name @ ''_'')) all_action_names"

definition update_action_names :: "'tool vendor \<Rightarrow> string \<Rightarrow> unit prog" where
  "update_action_names v app_name =
     (let all_action_names = Action_annotations v;
          app_action_names = app_action_names all_action_names app_name
      in andthen (setitem2 ''action_names'' ''options'' (PList app_action_names)) (\<lambda>_.
         setitem2 ''action_names'' ''value''
           (PList (case app_action_names of [] \<Rightarrow> [''''] | a # _ \<Rightarrow> [a]))))"

text \<open>\<^verbatim>\<open>hasattr(self, "api_key") and self.api_key != ""\<close>, the guard of both branches\<close>

definition has_api_key :: "component \<Rightarrow> bool" where
  "has_api_key self = (case api_key self of None \<Rightarrow> False | Some k \<Rightarrow> k \<noteq> '''')"

definition update_build_config ::
  "component \<Rightarrow> 'tool vendor \<Rightarrow> pyval \<Rightarrow> string option \<Rightarrow> unit prog" where
  "update_build_config self v field_value field_name =
     (if field_name = Some ''api_key'' then
        (if has_api_key self then update_app_names_with_connected_status self v else ret ())
      else if field_name = Some ''app_names'' \<and> has_api_key self then
        (let app_name = get_normalized_app_name self
         in andthen (try_except (auth_status_check self v app_name) is_Exception auth_status_error) (\<lambda>_.
            update_action_names v app_name))
      else ret ())"

text \<open>\<^verbatim>\<open>build_tool\<close>\<close>

definition build_tool :: "component \<Rightarrow> 'tool vendor \<Rightarrow> 'tool list prog" where
  "build_tool self v =
     andthen (build_wrapper self v) (\<lambda>composio_toolset.
     vendor_call (CallGetTools composio_toolset (action_names self))
       (v_get_tools v composio_toolset (action_names self)))"

subsection \<open>A concrete component, configuration and vendor\<close>

text \<open>
  Inputs on which the theorems below are instantiated: the configuration holds the four
  fields the component declares, the vendor is described by what its connection lookup,
  its app query and its connection initiation answer.
\<close>

definition demo_config :: build_config where
  "demo_config =
     [''app_names'' \<mapsto> [''value'' \<mapsto> PStr ''''],
      ''auth_link'' \<mapsto> [''value'' \<mapsto> PStr ''''],
      ''auth_status'' \<mapsto> [''value'' \<mapsto> PStr ''Not Connected''],
      ''action_names'' \<mapsto> [''value'' \<mapsto> PList []]]"

definition demo_world :: world where
  "demo_world = \<lparr>config = demo_config, calls = []\<rparr>"

text \<open>
  A configuration whose \<open>action_names\<close> field still lists the actions of a previously
  selected app.
\<close>

definition demo_stale_world :: world where
  "demo_stale_world =
     \<lparr>config = demo_config(''action_names'' \<mapsto>
         [''options'' \<mapsto> PList [''SLACK_SEND_MESSAGE''], ''value'' \<mapsto> PList [''SLACK_SEND_MESSAGE'']]),
      calls = []\<rparr>"

definition demo_self :: component where
  "demo_self =
     \<lparr>entity_id = ''default'', api_key = Some ''key'', app_names = ''GITHUB_CONNECTED'',
      auth_status_config = ''Enter API Key'', action_names = [''GITHUB_STAR_REPO'']\<rparr>"

definition demo_vendor ::
  "exn + unit \<Rightarrow> exn + string list \<Rightarrow> exn + string \<Rightarrow> string vendor" where
  "demo_vendor lookup schemes initiated =
     \<lparr>v_ComposioToolSet = (\<lambda>_. Inr ()),
      v_get_entity = (\<lambda>_ _. Inr ()),
      v_get_connection = (\<lambda>_ _. lookup),
      v_get_connections = (\<lambda>_. Inr [''github'', ''slack'', ''github'']),
      v_apps_get = (\<lambda>_ _. schemes),
      v_initiate_connection = (\<lambda>_ _. initiated),
      v_get_tools = (\<lambda>_ names. Inr names),
      App_annotations = [''GMAIL'', ''GITHUB'', ''NOTION'', ''SLACK''],
      Action_annotations =
        [''GITHUB_STAR_REPO'', ''GMAIL_SEND_EMAIL'', ''GITHUBX_PING'', ''Github_Create_Issue'']\<rparr>"

definition demo_toolset :: toolset where
  "demo_toolset = ToolSet ''key''"

definition demo_entity :: entity where
  "demo_entity = Entity (ToolSet ''key'') ''default''"

section \<open>Properties\<close>

subsection \<open>Auxiliary facts\<close>

lemmas prog_defs = ret_def raise_def andthen_def try_except_def vendor_call_def setitem2_def
  index0_def is_Exception_def is_NoItemsFound_def

lemmas meth_defs = build_wrapper_def get_entity_def get_connection_def apps_get_auth_schemes_def
  initiate_connection_def initiate_default_connection_def

lemmas demo_defs = demo_config_def demo_world_def demo_self_def demo_vendor_def
  demo_toolset_def demo_entity_def

lemma replace_nonempty:
  "old \<noteq> [] \<Longrightarrow> replace s old new =
     (if s = [] then [] else if startswith s old then new @ replace (drop (length old) s) old new
      else hd s # replace (tl s) old new)"
  by (subst replace.simps) simp

lemma replace_Nil: "old \<noteq> [] \<Longrightarrow> replace [] old new = []"
  by (simp add: replace_nonempty)

text \<open>
  When the first character of the pattern does not occur again in it, no occurrence can
  start in \<open>s\<close> and end in a following block that begins with that character.
\<close>

lemma startswith_append_unbordered:
  assumes "c \<notin> set r" "s \<noteq> []"
  shows "startswith (s @ c # t) (c # r) = startswith s (c # r)"
proof (cases "length (c # r) \<le> length s")
  case True
  then show ?thesis by (simp add: startswith_def)
next
  case False
  then have short: "length s < Suc (length r)" by simp
  have "\<not> startswith s (c # r)"
    using short by (auto simp: startswith_def dest: arg_cong[where f=length])
  moreover have "\<not> startswith (s @ c # t) (c # r)"
  proof
    assume "startswith (s @ c # t) (c # r)"
    then have eq: "take (Suc (length r)) (s @ c # t) = c # r" by (simp add: startswith_def)
    have "(take (Suc (length r)) (s @ c # t)) ! length s = c"
      using short by (simp add: nth_append)
    with eq have "(c # r) ! length s = c" by simp
    moreover from assms(2) obtain n where n: "length s = Suc n" by (cases s) auto
    ultimately have "r ! n = c" by simp
    moreover have "n < length r" using short n by simp
    ultimately have "c \<in> set r" using nth_mem by blast
    with assms(1) show False by simp
  qed
  ultimately show ?thesis by simp
qed

lemma replace_append:
  assumes "c \<notin> set r"
  shows "replace (s @ c # t) (c # r) new = replace s (c # r) new @ replace (c # t) (c # r) new"
proof (induction s rule: length_induct)
  case (1 s)
  show ?case
  proof (cases s)
    case Nil
    then show ?thesis by (simp add: replace_Nil)
  next
    case (Cons x xs)
    then have ne: "s \<noteq> []" by simp
    have sw: "startswith (s @ c # t) (c # r) = startswith s (c # r)"
      using assms ne by (rule startswith_append_unbordered)
    show ?thesis
    proof (cases "startswith s (c # r)")
      case True
      then have len: "Suc (length r) \<le> length s"
        by (auto simp: startswith_def dest: arg_cong[where f=length])
      have shorter: "length (drop (Suc (length r)) s) < length s" using ne by simp
      have "replace (s @ c # t) (c # r) new = new @ replace (drop (Suc (length r)) s @ c # t) (c # r) new"
        using True sw len by (subst replace_nonempty) (simp_all)
      also have "\<dots> = new @ replace (drop (Suc (length r)) s) (c # r) new @ replace (c # t) (c # r) new"
        using 1 shorter by simp
      also have "\<dots> = replace s (c # r) new @ replace (c # t) (c # r) new"
        using True ne by (subst (2) replace_nonempty) simp_all
      finally show ?thesis .
    next
      case False
      have "replace (s @ c # t) (c # r) new = x # replace (xs @ c # t) (c # r) new"
        using False sw Cons by (subst replace_nonempty) simp_all
      also have "\<dots> = x # replace xs (c # r) new @ replace (c # t) (c # r) new"
        using 1 Cons by simp
      also have "\<dots> = replace s (c # r) new @ replace (c # t) (c # r) new"
        using False Cons by (subst (2) replace_nonempty) simp_all
      finally show ?thesis .
    qed
  qed
qed

lemma replace_no_occurrence: "\<not> contains s old \<Longrightarrow> replace s old new = s"
proof (induction s)
  case Nil
  then show ?case by (simp add: replace_nonempty)
next
  case (Cons x xs)
  then have "old \<noteq> []" by (auto simp: startswith_def)
  with Cons show ?case by (subst replace_nonempty) simp_all
qed

lemma replace_upper_self: "replace ''_CONNECTED'' ''_CONNECTED'' '''' = ''''"
  by (simp add: replace.simps startswith_def)

lemma replace_lower_upper: "replace ''_connected'' ''_CONNECTED'' '''' = ''_connected''"
  by (simp add: replace.simps startswith_def)

lemma replace_lower_self: "replace ''_connected'' ''_connected'' '''' = ''''"
  by (simp add: replace.simps startswith_def)

lemma strip_upper:
  "replace (s @ ''_CONNECTED'') ''_CONNECTED'' '''' = replace s ''_CONNECTED'' ''''"
  using replace_append[of "CHR ''_''" "''CONNECTED''" s "''CONNECTED''" "''''"]
  by (simp add: replace_upper_self)

lemma keep_lower:
  "replace (s @ ''_connected'') ''_CONNECTED'' '''' = replace s ''_CONNECTED'' '''' @ ''_connected''"
  using replace_append[of "CHR ''_''" "''CONNECTED''" s "''connected''" "''''"]
  by (simp add: replace_lower_upper)

lemma strip_lower:
  "replace (s @ ''_connected'') ''_connected'' '''' = replace s ''_connected'' ''''"
  using replace_append[of "CHR ''_''" "''connected''" s "''connected''" "''''"]
  by (simp add: replace_lower_self)

lemma demo_normalized: "get_normalized_app_name demo_self = ''GITHUB''"
  by (simp add: get_normalized_app_name_def demo_self_def replace.simps startswith_def)

lemma demo_has_api_key: "has_api_key demo_self"
  by (simp add: has_api_key_def demo_self_def)

lemma demo_fields:
  "config demo_world ''auth_status'' = Some [''value'' \<mapsto> PStr ''Not Connected'']"
  "config demo_world ''auth_link'' = Some [''value'' \<mapsto> PStr '''']"
  "config demo_world ''action_names'' = Some [''value'' \<mapsto> PList []]"
  "config demo_world ''app_names'' = Some [''value'' \<mapsto> PStr '''']"
  by (simp_all add: demo_world_def demo_config_def)

text \<open>
  With the two status fields present, the status check of \<open>update_build_config\<close> together
  with its \<^verbatim>\<open>except Exception\<close> block always returns, and touches no other field.
\<close>

lemma status_total:
  assumes "config w ''auth_status'' = Some fs" "config w ''auth_link'' = Some fl"
  shows "\<exists>w'. try_except (auth_status_check self v app) is_Exception auth_status_error w = (Inr (), w')
     \<and> config w' ''action_names'' = config w ''action_names''"
  using assms
  by (auto simp add: auth_status_check_def auth_scheme_check_def auth_status_error_def Let_def prog_defs meth_defs
      split: option.splits sum.splits list.splits prod.splits if_splits)

text \<open>An exception leaves the try block before any field has been written.\<close>

lemma status_raise_keeps_config:
  assumes "config w ''auth_status'' = Some fs" "config w ''auth_link'' = Some fl"
  shows "case auth_status_check self v app w of
           (Inl e, w1) \<Rightarrow> config w1 = config w
         | (Inr u, w1) \<Rightarrow> True"
  using assms
  by (simp add: auth_status_check_def auth_scheme_check_def Let_def prog_defs meth_defs
      split: option.splits sum.splits list.splits prod.splits)

lemma status_error:
  assumes "config w ''auth_status'' = Some fs" "config w ''auth_link'' = Some fl"
    and "auth_status_check self v app w = (Inl e, w1)"
  shows "\<exists>w'. try_except (auth_status_check self v app) is_Exception auth_status_error w = (Inr (), w')
     \<and> config w' ''action_names'' = config w ''action_names''
     \<and> lookup2 w' ''auth_status'' ''value'' = Some (PStr (''Error: '' @ exn_str e))
     \<and> lookup2 w' ''auth_link'' ''value'' = Some (PStr '''')"
proof -
  from status_raise_keeps_config[OF assms(1,2), of self v app] assms(3)
  have "config w1 = config w" by simp
  with assms show ?thesis
    by (simp add: try_except_def is_Exception_def auth_status_error_def andthen_def setitem2_def
        lookup2_def)
qed

lemma demo_ids: "entity_id demo_self = ''default''" "api_key demo_self = Some ''key''"
  by (simp_all add: demo_self_def)

lemma partition_covers:
  "distinct xs \<Longrightarrow>
     distinct (filter P xs @ filter (\<lambda>x. \<not> P x) xs)
     \<and> set (filter P xs @ filter (\<lambda>x. \<not> P x) xs) = set xs"
  by auto

lemma first_of_map:
  "(case map f xs of [] \<Rightarrow> d | a # _ \<Rightarrow> a) = (case xs of [] \<Rightarrow> d | a # _ \<Rightarrow> f a)"
  by (cases xs) simp_all

text \<open>
  Which vendor failures leave the status check of \<open>update_build_config\<close> as an exception:
  all of them except a \<^verbatim>\<open>NoItemsFound\<close> raised by the connection lookup.
\<close>

lemma auth_status_check_raises:
  "api_key self = Some k \<Longrightarrow> v_ComposioToolSet v k = Inl e
     \<Longrightarrow> fst (auth_status_check self v app w) = Inl e"
  "api_key self = Some k \<Longrightarrow> v_ComposioToolSet v k = Inr ()
     \<Longrightarrow> v_get_entity v (ToolSet k) (entity_id self) = Inl e
     \<Longrightarrow> fst (auth_status_check self v app w) = Inl e"
  "api_key self = Some k \<Longrightarrow> v_ComposioToolSet v k = Inr ()
     \<Longrightarrow> v_get_entity v (ToolSet k) (entity_id self) = Inr ()
     \<Longrightarrow> v_get_connection v (Entity (ToolSet k) (entity_id self)) app = Inl e
     \<Longrightarrow> exn_cls e \<noteq> NoItemsFound
     \<Longrightarrow> fst (auth_status_check self v app w) = Inl e"
  "api_key self = Some k \<Longrightarrow> v_ComposioToolSet v k = Inr ()
     \<Longrightarrow> v_get_entity v (ToolSet k) (entity_id self) = Inr ()
     \<Longrightarrow> v_get_connection v (Entity (ToolSet k) (entity_id self)) app = Inl e0
     \<Longrightarrow> exn_cls e0 = NoItemsFound
     \<Longrightarrow> v_apps_get v (ToolSet k) app = Inl e
     \<Longrightarrow> fst (auth_status_check self v app w) = Inl e"
  "api_key self = Some k \<Longrightarrow> v_ComposioToolSet v k = Inr ()
     \<Longrightarrow> v_get_entity v (ToolSet k) (entity_id self) = Inr ()
     \<Longrightarrow> v_get_connection v (Entity (ToolSet k) (entity_id self)) app = Inl e0
     \<Longrightarrow> exn_cls e0 = NoItemsFound
     \<Longrightarrow> v_apps_get v (ToolSet k) app = Inr (mode # modes) \<Longrightarrow> mode \<noteq> ''API_KEY''
     \<Longrightarrow> v_initiate_connection v (Entity (ToolSet k) (entity_id self)) (default_request app) = Inl e
     \<Longrightarrow> fst (auth_status_check self v app w) = Inl e"
  by (simp_all add: auth_status_check_def auth_scheme_check_def prog_defs meth_defs)

subsection \<open>Claims\<close>

text \<open>
  C1. Every exception that leaves the status check of an \<open>app_names\<close>
  update, which is every vendor exception except the lookup's \<^verbatim>\<open>NoItemsFound\<close>, ends in
  \<open>auth_status\<close> being \<open>Error: \<close> followed by the exception's text and \<open>auth_link\<close> being
  empty, and \<open>update_build_config\<close> returns. In \<open>_check_for_authorization\<close>, once toolset
  and entity are obtained and the lookup has raised, an exception in the fallback gives
  the status string \<open>Error\<close>, without colon or message.
\<close>

theorem status_check_exception_reported:
  assumes "api_key self = Some k" "k \<noteq> ''''"
    and "config w ''auth_status'' = Some fs" "config w ''auth_link'' = Some fl"
    and "config w ''action_names'' = Some fa"
  shows "(auth_status_check self v (get_normalized_app_name self) w = (Inl e, w1)
          \<longrightarrow> (\<exists>w'. update_build_config self v fv (Some ''app_names'') w = (Inr (), w')
                \<and> lookup2 w' ''auth_status'' ''value'' = Some (PStr (''Error: '' @ exn_str e))
                \<and> lookup2 w' ''auth_link'' ''value'' = Some (PStr '''')))
     \<and> (v_ComposioToolSet v k = Inr ()
          \<and> v_get_entity v (ToolSet k) (entity_id self) = Inr ()
          \<and> v_get_connection v (Entity (ToolSet k) (entity_id self)) app = Inl e1
          \<and> authorization_fallback self v (ToolSet k) (Entity (ToolSet k) (entity_id self)) app
               (w\<lparr>calls := calls w @ [CallComposioToolSet k, CallGetEntity (ToolSet k) (entity_id self),
                  CallGetConnection (Entity (ToolSet k) (entity_id self)) app]\<rparr>) = (Inl e2, w2)
          \<longrightarrow> check_for_authorization self v app w = (Inr ''Error'', w2))"
proof (intro conjI impI)
  assume raised: "auth_status_check self v (get_normalized_app_name self) w = (Inl e, w1)"
  from status_error[OF assms(3,4) raised] obtain w3 where
    w3: "try_except (auth_status_check self v (get_normalized_app_name self)) is_Exception
           auth_status_error w = (Inr (), w3)"
    and an: "config w3 ''action_names'' = config w ''action_names''"
    and st: "lookup2 w3 ''auth_status'' ''value'' = Some (PStr (''Error: '' @ exn_str e))"
    and li: "lookup2 w3 ''auth_link'' ''value'' = Some (PStr '''')"
    by (elim exE conjE)
  show "\<exists>w'. update_build_config self v fv (Some ''app_names'') w = (Inr (), w')
      \<and> lookup2 w' ''auth_status'' ''value'' = Some (PStr (''Error: '' @ exn_str e))
      \<and> lookup2 w' ''auth_link'' ''value'' = Some (PStr '''')"
    using assms(1,2,5) w3 an st li
    by (simp add: update_build_config_def has_api_key_def update_action_names_def Let_def
        andthen_def setitem2_def lookup2_def)
next
  assume "v_ComposioToolSet v k = Inr ()
      \<and> v_get_entity v (ToolSet k) (entity_id self) = Inr ()
      \<and> v_get_connection v (Entity (ToolSet k) (entity_id self)) app = Inl e1
      \<and> authorization_fallback self v (ToolSet k) (Entity (ToolSet k) (entity_id self)) app
           (w\<lparr>calls := calls w @ [CallComposioToolSet k, CallGetEntity (ToolSet k) (entity_id self),
              CallGetConnection (Entity (ToolSet k) (entity_id self)) app]\<rparr>) = (Inl e2, w2)"
  then show "check_for_authorization self v app w = (Inr ''Error'', w2)"
    using assms(1)
    by (simp add: check_for_authorization_def handle_authorization_failure_def prog_defs meth_defs)
qed

theorem status_check_exception_reported_witness:
  "(\<exists>w'. update_build_config demo_self
        (demo_vendor (Inl (Exn NoItemsFound ''no connection'')) (Inl (Exn OtherException ''boom'')) (Inr ''''))
        (PStr '''') (Some ''app_names'') demo_world = (Inr (), w')
      \<and> lookup2 w' ''auth_status'' ''value'' = Some (PStr ''Error: boom'')
      \<and> lookup2 w' ''auth_link'' ''value'' = Some (PStr ''''))
   \<and> fst (check_for_authorization demo_self
        (demo_vendor (Inl (Exn NoItemsFound ''no connection'')) (Inl (Exn OtherException ''boom'')) (Inr ''''))
        ''GITHUB'' demo_world) = Inr ''Error''"
proof -
  let ?v = "demo_vendor (Inl (Exn NoItemsFound ''no connection'')) (Inl (Exn OtherException ''boom'')) (Inr '''')"
  let ?ts = "ToolSet ''key''"
  let ?en = "Entity (ToolSet ''key'') ''default''"
  let ?w3 = "demo_world\<lparr>calls := calls demo_world @
      [CallComposioToolSet ''key'', CallGetEntity ?ts ''default'', CallGetConnection ?en ''GITHUB'']\<rparr>"
  let ?w4 = "?w3\<lparr>calls := calls ?w3 @ [CallAppsGet ?ts ''GITHUB'']\<rparr>"
  have k: "api_key demo_self = Some ''key''" "''key'' \<noteq> ''''"
    by (simp_all add: demo_self_def)
  have raised: "auth_status_check demo_self ?v (get_normalized_app_name demo_self) demo_world
      = (Inl (Exn OtherException ''boom''), ?w4)"
    by (simp add: demo_normalized auth_status_check_def auth_scheme_check_def demo_ids
        demo_vendor_def prog_defs meth_defs)
  have vendor: "v_ComposioToolSet ?v ''key'' = Inr ()
      \<and> v_get_entity ?v ?ts (entity_id demo_self) = Inr ()
      \<and> v_get_connection ?v (Entity ?ts (entity_id demo_self)) ''GITHUB''
          = Inl (Exn NoItemsFound ''no connection'')
      \<and> authorization_fallback demo_self ?v ?ts (Entity ?ts (entity_id demo_self)) ''GITHUB''
           (demo_world\<lparr>calls := calls demo_world @
              [CallComposioToolSet ''key'', CallGetEntity ?ts (entity_id demo_self),
               CallGetConnection (Entity ?ts (entity_id demo_self)) ''GITHUB'']\<rparr>)
          = (Inl (Exn OtherException ''boom''), ?w4)"
    by (simp add: authorization_fallback_def demo_ids demo_vendor_def prog_defs meth_defs)
  note inst = status_check_exception_reported[OF k demo_fields(1,2,3),
      where v = "?v" and e = "Exn OtherException ''boom''" and ?w1.0 = "?w4" and fv = "PStr ''''"
        and app = "''GITHUB''" and ?e1.0 = "Exn NoItemsFound ''no connection''"
        and ?e2.0 = "Exn OtherException ''boom''" and ?w2.0 = "?w4"]
  have a: "\<exists>w'. update_build_config demo_self ?v (PStr '''') (Some ''app_names'') demo_world = (Inr (), w')
      \<and> lookup2 w' ''auth_status'' ''value'' = Some (PStr (''Error: '' @ exn_str (Exn OtherException ''boom'')))
      \<and> lookup2 w' ''auth_link'' ''value'' = Some (PStr '''')"
    using inst[THEN conjunct1, THEN mp, OF raised] .
  have b: "check_for_authorization demo_self ?v ''GITHUB'' demo_world = (Inr ''Error'', ?w4)"
    using inst[THEN conjunct2, THEN mp, OF vendor] .
  from a b show ?thesis by simp
qed

text \<open>
  C1, counterexample to the \<open>Error:\<close> prefix: when the lookup and then the app query fail,
  \<open>_check_for_authorization\<close> returns \<open>Error\<close>, which does not begin with \<open>Error:\<close>.
\<close>

theorem check_for_authorization_error_counterexample:
  "fst (check_for_authorization demo_self
     (demo_vendor (Inl (Exn OtherException ''connection reset'')) (Inl (Exn OtherException ''boom''))
        (Inr ''''))
     ''GITHUB'' demo_world) = Inr ''Error''
   \<and> \<not> startswith ''Error'' ''Error:''"
  by (simp add: check_for_authorization_def handle_authorization_failure_def
      authorization_fallback_def demo_ids demo_vendor_def prog_defs meth_defs startswith_def)

text \<open>
  C2. When the connection lookup for the normalized app name succeeds, an \<open>app_names\<close>
  update sets \<open>auth_status\<close> to the app name followed by \<open>CONNECTED\<close> and \<open>auth_link\<close>
  to the empty string, and returns.
\<close>

theorem connected_status_resolution:
  assumes "api_key self = Some k" "k \<noteq> ''''"
    and "v_ComposioToolSet v k = Inr ()"
    and "v_get_entity v (ToolSet k) (entity_id self) = Inr ()"
    and "v_get_connection v (Entity (ToolSet k) (entity_id self)) (get_normalized_app_name self) = Inr ()"
    and "config w ''auth_status'' = Some fs" "config w ''auth_link'' = Some fl"
    and "config w ''action_names'' = Some fa"
  shows "\<exists>w'. update_build_config self v fv (Some ''app_names'') w = (Inr (), w')
     \<and> lookup2 w' ''auth_status'' ''value'' = Some (PStr (get_normalized_app_name self @ '' CONNECTED''))
     \<and> lookup2 w' ''auth_link'' ''value'' = Some (PStr '''')"
  using assms
  by (simp add: update_build_config_def has_api_key_def auth_status_check_def
      update_action_names_def Let_def prog_defs meth_defs lookup2_def)

theorem connected_status_resolution_witness:
  "\<exists>w'. update_build_config demo_self (demo_vendor (Inr ()) (Inr []) (Inr '''')) (PStr '''')
        (Some ''app_names'') demo_world = (Inr (), w')
     \<and> lookup2 w' ''auth_status'' ''value'' = Some (PStr ''GITHUB CONNECTED'')
     \<and> lookup2 w' ''auth_link'' ''value'' = Some (PStr '''')"
proof -
  let ?v = "demo_vendor (Inr ()) (Inr []) (Inr '''')"
  have k: "api_key demo_self = Some ''key''" "''key'' \<noteq> ''''"
    by (simp_all add: demo_self_def)
  have t: "v_ComposioToolSet ?v ''key'' = Inr ()"
    and e: "v_get_entity ?v (ToolSet ''key'') (entity_id demo_self) = Inr ()"
    and c: "v_get_connection ?v (Entity (ToolSet ''key'') (entity_id demo_self))
              (get_normalized_app_name demo_self) = Inr ()"
    by (simp_all add: demo_vendor_def)
  show ?thesis
    using connected_status_resolution[OF k t e c demo_fields(1,2,3), of "PStr ''''"]
    by (simp add: demo_normalized)
qed

text \<open>
  C3. After an \<open>app_names\<close> update made while the component holds a non-empty
  \<open>api_key\<close> (the declared fields being present), \<open>update_build_config\<close> returns and the
  options of \<open>action_names\<close> are exactly the catalog's action identifiers, in catalog
  order, whose lowercase form starts with the lowercase normalized app name followed by an
  underscore. This holds whatever the vendor answers during the status check.
\<close>

theorem action_names_options_exact:
  assumes "has_api_key self"
    and "config w ''auth_status'' = Some fs" "config w ''auth_link'' = Some fl"
    and "config w ''action_names'' = Some fa"
  shows "\<exists>w'. update_build_config self v fv (Some ''app_names'') w = (Inr (), w')
     \<and> lookup2 w' ''action_names'' ''options'' = Some (PList (filter
          (\<lambda>action_name. startswith (lower action_name) (lower (get_normalized_app_name self) @ ''_''))
          (Action_annotations v)))"
proof -
  from status_total[OF assms(2,3), of self v "get_normalized_app_name self"] obtain w1 where
    w1: "try_except (auth_status_check self v (get_normalized_app_name self)) is_Exception
           auth_status_error w = (Inr (), w1)"
    and fr: "config w1 ''action_names'' = config w ''action_names''"
    by (elim exE conjE)
  show ?thesis
    using assms(1,4) w1 fr
    by (simp add: update_build_config_def update_action_names_def app_action_names_def Let_def
        andthen_def setitem2_def lookup2_def)
qed

theorem action_names_options_exact_witness:
  "\<exists>w'. update_build_config demo_self (demo_vendor (Inr ()) (Inr []) (Inr ''''))
        (PStr '''') (Some ''app_names'') demo_world = (Inr (), w')
     \<and> lookup2 w' ''action_names'' ''options''
         = Some (PList [''GITHUB_STAR_REPO'', ''Github_Create_Issue''])"
proof -
  have f: "filter
        (\<lambda>action_name. startswith (lower action_name) (lower (get_normalized_app_name demo_self) @ ''_''))
        (Action_annotations (demo_vendor (Inr ()) (Inr []) (Inr '''')))
      = [''GITHUB_STAR_REPO'', ''Github_Create_Issue'']"
    by (simp add: demo_normalized demo_vendor_def startswith_def lower_def lower_char_def)
  show ?thesis
    using action_names_options_exact[OF demo_has_api_key demo_fields(1,2,3),
        of "demo_vendor (Inr ()) (Inr []) (Inr '''')" "PStr ''''"]
    unfolding f .
qed

text \<open>
  C3, counterexample without a key: with an empty \<open>api_key\<close> an \<open>app_names\<close> update returns
  with the configuration untouched, so \<open>action_names\<close> keeps the options of the previous
  app and not the identifiers of the chosen one.
\<close>

theorem action_names_options_no_key_counterexample:
  "update_build_config (demo_self\<lparr>api_key := Some ''''\<rparr>) (demo_vendor (Inr ()) (Inr []) (Inr ''''))
      (PStr ''GITHUB_CONNECTED'') (Some ''app_names'') demo_stale_world = (Inr (), demo_stale_world)
   \<and> lookup2 demo_stale_world ''action_names'' ''options'' = Some (PList [''SLACK_SEND_MESSAGE''])
   \<and> app_action_names (Action_annotations (demo_vendor (Inr ()) (Inr []) (Inr '''')))
        (get_normalized_app_name (demo_self\<lparr>api_key := Some ''''\<rparr>))
      = [''GITHUB_STAR_REPO'', ''Github_Create_Issue'']"
proof -
  have n: "get_normalized_app_name (demo_self\<lparr>api_key := Some ''''\<rparr>) = ''GITHUB''"
    by (simp add: get_normalized_app_name_def demo_self_def replace.simps startswith_def)
  have a: "update_build_config (demo_self\<lparr>api_key := Some ''''\<rparr>) (demo_vendor (Inr ()) (Inr []) (Inr ''''))
      (PStr ''GITHUB_CONNECTED'') (Some ''app_names'') demo_stale_world = (Inr (), demo_stale_world)"
    by (simp add: update_build_config_def has_api_key_def ret_def)
  have b: "lookup2 demo_stale_world ''action_names'' ''options'' = Some (PList [''SLACK_SEND_MESSAGE''])"
    by (simp add: lookup2_def demo_stale_world_def)
  have c: "app_action_names (Action_annotations (demo_vendor (Inr ()) (Inr []) (Inr ''''))) ''GITHUB''
      = [''GITHUB_STAR_REPO'', ''Github_Create_Issue'']"
    by (simp add: app_action_names_def demo_vendor_def startswith_def lower_def lower_char_def)
  from a b c show ?thesis unfolding n by (intro conjI)
qed

text \<open>
  C4. \<open>_get_normalized_app_name\<close> removes the two spellings \<open>_CONNECTED\<close> and
  \<open>_connected\<close>, and only these: a name that carries one of them as a suffix normalizes to
  what its base normalizes to, which is the base itself when neither spelling occurs in it.
\<close>

theorem normalization_strips_exact_casings:
  "get_normalized_app_name (self\<lparr>app_names := base @ ''_CONNECTED''\<rparr>)
     = get_normalized_app_name (self\<lparr>app_names := base\<rparr>)
   \<and> get_normalized_app_name (self\<lparr>app_names := base @ ''_connected''\<rparr>)
     = get_normalized_app_name (self\<lparr>app_names := base\<rparr>)
   \<and> (\<not> contains base ''_CONNECTED'' \<and> \<not> contains base ''_connected''
      \<longrightarrow> get_normalized_app_name (self\<lparr>app_names := base\<rparr>) = base)"
  by (simp add: get_normalized_app_name_def strip_upper keep_lower strip_lower
      replace_no_occurrence)

theorem normalization_strips_exact_casings_witness:
  "get_normalized_app_name (demo_self\<lparr>app_names := ''GITHUB_CONNECTED''\<rparr>) = ''GITHUB''
   \<and> get_normalized_app_name (demo_self\<lparr>app_names := ''GITHUB_connected''\<rparr>) = ''GITHUB''"
proof -
  have "\<not> contains ''GITHUB'' ''_CONNECTED''" and "\<not> contains ''GITHUB'' ''_connected''"
    by (simp_all add: startswith_def)
  then show ?thesis
    using normalization_strips_exact_casings[where self = demo_self and base = "''GITHUB''"] by simp
qed

text \<open>
  C4, counterexample to case-insensitivity: a suffix in mixed casing is not stripped.
\<close>

theorem normalization_mixed_case_counterexample:
  "get_normalized_app_name (demo_self\<lparr>app_names := ''GITHUB_Connected''\<rparr>) = ''GITHUB_Connected''"
  by (simp add: get_normalized_app_name_def replace.simps startswith_def)

text \<open>
  C5. For an app whose first auth scheme is \<open>API_KEY\<close> and a prior status text that does
  not look like a key (it contains \<open>http\<close>, or contains \<open>CONNECTED\<close> without the app name,
  or contains \<open>API Key\<close>), every API-key path of the status resolution gives
  \<open>Enter API Key\<close>: \<open>_process_api_key_auth\<close> returns it without calling the vendor,
  \<open>_handle_authorization_failure\<close> returns it, and the API-key block of
  \<open>update_build_config\<close> writes it to \<open>auth_status\<close>.
\<close>

theorem api_key_auth_enter_api_key:
  assumes "contains (auth_status_config self) ''http''
         \<or> contains (auth_status_config self) ''CONNECTED'' \<and> \<not> contains (auth_status_config self) app
         \<or> contains (auth_status_config self) ''API Key''"
    and "v_apps_get v toolset app = Inr (''API_KEY'' # modes)"
    and "config w ''auth_status'' = Some fs" "config w ''auth_link'' = Some fl"
  shows "process_api_key_auth self v entity app w = (Inr ''Enter API Key'', w)
     \<and> handle_authorization_failure self v toolset entity app w
         = (Inr ''Enter API Key'', w\<lparr>calls := calls w @ [CallAppsGet toolset app]\<rparr>)
     \<and> (\<exists>w'. auth_scheme_check v toolset entity app w = (Inr (), w')
          \<and> lookup2 w' ''auth_status'' ''value'' = Some (PStr ''Enter API Key''))"
proof -
  have p: "process_api_key_auth self v entity app w0 = (Inr ''Enter API Key'', w0)" for w0
    using assms(1) by (auto simp add: process_api_key_auth_def Let_def ret_def)
  have h: "handle_authorization_failure self v toolset entity app w
         = (Inr ''Enter API Key'', w\<lparr>calls := calls w @ [CallAppsGet toolset app]\<rparr>)"
    using assms(2)
    by (simp add: handle_authorization_failure_def authorization_fallback_def p
        apps_get_auth_schemes_def prog_defs)
  have u: "\<exists>w'. auth_scheme_check v toolset entity app w = (Inr (), w')
          \<and> lookup2 w' ''auth_status'' ''value'' = Some (PStr ''Enter API Key'')"
    using assms(2,3,4)
    by (simp add: auth_scheme_check_def apps_get_auth_schemes_def prog_defs lookup2_def)
  from p h u show ?thesis by simp
qed

theorem api_key_auth_enter_api_key_witness:
  "process_api_key_auth demo_self (demo_vendor (Inl (Exn NoItemsFound ''no connection'')) (Inr [''API_KEY'']) (Inr ''''))
      demo_entity ''GITHUB'' demo_world = (Inr ''Enter API Key'', demo_world)
   \<and> handle_authorization_failure demo_self
        (demo_vendor (Inl (Exn NoItemsFound ''no connection'')) (Inr [''API_KEY'']) (Inr ''''))
        demo_toolset demo_entity ''GITHUB'' demo_world
      = (Inr ''Enter API Key'', demo_world\<lparr>calls := calls demo_world @ [CallAppsGet demo_toolset ''GITHUB'']\<rparr>)
   \<and> (\<exists>w'. auth_scheme_check
          (demo_vendor (Inl (Exn NoItemsFound ''no connection'')) (Inr [''API_KEY'']) (Inr ''''))
          demo_toolset demo_entity ''GITHUB'' demo_world = (Inr (), w')
        \<and> lookup2 w' ''auth_status'' ''value'' = Some (PStr ''Enter API Key''))"
proof -
  let ?v = "demo_vendor (Inl (Exn NoItemsFound ''no connection'')) (Inr [''API_KEY'']) (Inr '''')"
  have c: "contains (auth_status_config demo_self) ''http''
         \<or> contains (auth_status_config demo_self) ''CONNECTED''
            \<and> \<not> contains (auth_status_config demo_self) ''GITHUB''
         \<or> contains (auth_status_config demo_self) ''API Key''"
    by (simp add: demo_self_def startswith_def)
  have a: "v_apps_get ?v demo_toolset ''GITHUB'' = Inr (''API_KEY'' # [])"
    by (simp add: demo_vendor_def)
  show ?thesis
    using api_key_auth_enter_api_key[OF c a demo_fields(1,2), of demo_entity] .
qed

text \<open>
  C6. When the lookup reports no connection (\<^verbatim>\<open>NoItemsFound\<close>), the app's first auth
  scheme is not \<open>API_KEY\<close> and the vendor's connection initiation returns, an \<open>app_names\<close>
  update sets \<open>auth_link\<close> to the redirect URL the vendor returned, as it is, and
  \<open>auth_status\<close> to \<open>Click link to authenticate\<close>.
\<close>

theorem link_auth_click_link:
  assumes "api_key self = Some k" "k \<noteq> ''''"
    and "v_ComposioToolSet v k = Inr ()"
    and "v_get_entity v (ToolSet k) (entity_id self) = Inr ()"
    and "v_get_connection v (Entity (ToolSet k) (entity_id self)) (get_normalized_app_name self) = Inl e"
    and "exn_cls e = NoItemsFound"
    and "v_apps_get v (ToolSet k) (get_normalized_app_name self) = Inr (mode # modes)"
    and "mode \<noteq> ''API_KEY''"
    and "v_initiate_connection v (Entity (ToolSet k) (entity_id self))
           (default_request (get_normalized_app_name self)) = Inr url"
    and "config w ''auth_status'' = Some fs" "config w ''auth_link'' = Some fl"
    and "config w ''action_names'' = Some fa"
  shows "\<exists>w'. update_build_config self v fv (Some ''app_names'') w = (Inr (), w')
     \<and> lookup2 w' ''auth_link'' ''value'' = Some (PStr url)
     \<and> lookup2 w' ''auth_status'' ''value'' = Some (PStr ''Click link to authenticate'')"
  using assms
  by (simp add: update_build_config_def has_api_key_def auth_status_check_def auth_scheme_check_def
      update_action_names_def Let_def prog_defs meth_defs lookup2_def)

theorem link_auth_click_link_witness:
  "\<exists>w'. update_build_config demo_self
        (demo_vendor (Inl (Exn NoItemsFound ''no connection'')) (Inr [''OAUTH2''])
           (Inr ''https://auth.example/redirect''))
        (PStr '''') (Some ''app_names'') demo_world = (Inr (), w')
     \<and> lookup2 w' ''auth_link'' ''value'' = Some (PStr ''https://auth.example/redirect'')
     \<and> lookup2 w' ''auth_status'' ''value'' = Some (PStr ''Click link to authenticate'')"
proof -
  let ?e = "Exn NoItemsFound ''no connection''"
  let ?v = "demo_vendor (Inl ?e) (Inr [''OAUTH2'']) (Inr ''https://auth.example/redirect'')"
  have k: "api_key demo_self = Some ''key''" "''key'' \<noteq> ''''"
    by (simp_all add: demo_self_def)
  have t: "v_ComposioToolSet ?v ''key'' = Inr ()"
    and e: "v_get_entity ?v (ToolSet ''key'') (entity_id demo_self) = Inr ()"
    and c: "v_get_connection ?v (Entity (ToolSet ''key'') (entity_id demo_self))
              (get_normalized_app_name demo_self) = Inl ?e"
    and a: "v_apps_get ?v (ToolSet ''key'') (get_normalized_app_name demo_self) = Inr [''OAUTH2'']"
    and i: "v_initiate_connection ?v (Entity (ToolSet ''key'') (entity_id demo_self))
           (default_request (get_normalized_app_name demo_self)) = Inr ''https://auth.example/redirect''"
    by (simp_all add: demo_vendor_def)
  have n: "exn_cls ?e = NoItemsFound" by simp
  have m: "''OAUTH2'' \<noteq> ''API_KEY''" by simp
  show ?thesis
    using link_auth_click_link[OF k t e c n a m i demo_fields(1,2,3), of "PStr ''''"] .
qed

text \<open>
  C6, counterexample to the non-empty link: the URL is not tested, so an empty redirect URL
  from the vendor gives an empty \<open>auth_link\<close> next to \<open>Click link to authenticate\<close>.
\<close>

theorem link_auth_empty_url_counterexample:
  "fst (update_build_config demo_self
          (demo_vendor (Inl (Exn NoItemsFound ''no connection'')) (Inr [''OAUTH2'']) (Inr ''''))
          (PStr '''') (Some ''app_names'') demo_world) = Inr ()
   \<and> lookup2 (snd (update_build_config demo_self
          (demo_vendor (Inl (Exn NoItemsFound ''no connection'')) (Inr [''OAUTH2'']) (Inr ''''))
          (PStr '''') (Some ''app_names'') demo_world)) ''auth_link'' ''value'' = Some (PStr '''')
   \<and> lookup2 (snd (update_build_config demo_self
          (demo_vendor (Inl (Exn NoItemsFound ''no connection'')) (Inr [''OAUTH2'']) (Inr ''''))
          (PStr '''') (Some ''app_names'') demo_world)) ''auth_status'' ''value''
       = Some (PStr ''Click link to authenticate'')"
proof -
  let ?v = "demo_vendor (Inl (Exn NoItemsFound ''no connection'')) (Inr [''OAUTH2'']) (Inr '''')"
  have s: "try_except (auth_status_check demo_self ?v ''GITHUB'') is_Exception auth_status_error demo_world
      = (Inr (), demo_world\<lparr>
           config := demo_config(''auth_link'' \<mapsto> [''value'' \<mapsto> PStr ''''],
             ''auth_status'' \<mapsto> [''value'' \<mapsto> PStr ''Click link to authenticate'']),
           calls := [CallComposioToolSet ''key'', CallGetEntity (ToolSet ''key'') ''default'',
             CallGetConnection (Entity (ToolSet ''key'') ''default'') ''GITHUB'',
             CallAppsGet (ToolSet ''key'') ''GITHUB'',
             CallInitiateConnection (Entity (ToolSet ''key'') ''default'') (default_request ''GITHUB'')]\<rparr>)"
    by (simp add: auth_status_check_def auth_scheme_check_def demo_ids demo_vendor_def
        demo_world_def demo_config_def prog_defs meth_defs)
  show ?thesis
    by (simp add: update_build_config_def demo_has_api_key demo_normalized Let_def andthen_def s
        update_action_names_def setitem2_def lookup2_def demo_config_def)
qed

text \<open>
  C7. In \<open>update_build_config\<close>, with toolset and entity obtained, a lookup
  that raises \<^verbatim>\<open>NoItemsFound\<close> continues with the auth-scheme inspection, and a lookup that
  raises anything else makes no further vendor call and ends in the \<open>Error: \<close> status with
  an empty link. In \<open>_check_for_authorization\<close> every exception of the lookup, whatever its
  class, continues with \<open>_handle_authorization_failure\<close>, which inspects the auth schemes.
\<close>

theorem lookup_exception_taxonomy:
  assumes "api_key self = Some k" "k \<noteq> ''''"
    and "v_ComposioToolSet v k = Inr ()"
    and "v_get_entity v (ToolSet k) (entity_id self) = Inr ()"
    and "v_get_connection v (Entity (ToolSet k) (entity_id self)) app = Inl e"
    and "app = get_normalized_app_name self"
    and "w3 = w\<lparr>calls := calls w @ [CallComposioToolSet k, CallGetEntity (ToolSet k) (entity_id self),
                  CallGetConnection (Entity (ToolSet k) (entity_id self)) app]\<rparr>"
    and "config w ''auth_status'' = Some fs" "config w ''auth_link'' = Some fl"
    and "config w ''action_names'' = Some fa"
  shows "(exn_cls e = NoItemsFound
          \<longrightarrow> update_build_config self v fv (Some ''app_names'') w
              = andthen
                  (try_except (auth_scheme_check v (ToolSet k) (Entity (ToolSet k) (entity_id self)) app)
                     is_Exception auth_status_error)
                  (\<lambda>_. update_action_names v app) w3)
     \<and> (exn_cls e \<noteq> NoItemsFound
          \<longrightarrow> (\<exists>w'. update_build_config self v fv (Some ''app_names'') w = (Inr (), w')
                \<and> calls w' = calls w3
                \<and> lookup2 w' ''auth_status'' ''value'' = Some (PStr (''Error: '' @ exn_str e))
                \<and> lookup2 w' ''auth_link'' ''value'' = Some (PStr '''')))
     \<and> check_for_authorization self v app w
         = handle_authorization_failure self v (ToolSet k) (Entity (ToolSet k) (entity_id self)) app w3"
proof (intro conjI impI)
  assume "exn_cls e = NoItemsFound"
  then show "update_build_config self v fv (Some ''app_names'') w
      = andthen
          (try_except (auth_scheme_check v (ToolSet k) (Entity (ToolSet k) (entity_id self)) app)
             is_Exception auth_status_error)
          (\<lambda>_. update_action_names v app) w3"
    using assms(1-7)
    by (simp add: update_build_config_def has_api_key_def auth_status_check_def Let_def
        andthen_def try_except_def vendor_call_def ret_def is_NoItemsFound_def meth_defs)
next
  assume "exn_cls e \<noteq> NoItemsFound"
  then show "\<exists>w'. update_build_config self v fv (Some ''app_names'') w = (Inr (), w')
      \<and> calls w' = calls w3
      \<and> lookup2 w' ''auth_status'' ''value'' = Some (PStr (''Error: '' @ exn_str e))
      \<and> lookup2 w' ''auth_link'' ''value'' = Some (PStr '''')"
    using assms
    by (simp add: update_build_config_def has_api_key_def auth_status_check_def
        auth_status_error_def update_action_names_def Let_def prog_defs meth_defs lookup2_def)
next
  show "check_for_authorization self v app w
      = handle_authorization_failure self v (ToolSet k) (Entity (ToolSet k) (entity_id self)) app w3"
    using assms(1-7)
    by (simp add: check_for_authorization_def prog_defs meth_defs)
qed

theorem lookup_exception_taxonomy_witness:
  "(\<exists>w'. update_build_config demo_self
        (demo_vendor (Inl (Exn OtherException ''connection reset'')) (Inr [''API_KEY'']) (Inr ''''))
        (PStr '''') (Some ''app_names'') demo_world = (Inr (), w')
      \<and> calls w' = [CallComposioToolSet ''key'', CallGetEntity (ToolSet ''key'') ''default'',
           CallGetConnection (Entity (ToolSet ''key'') ''default'') ''GITHUB'']
      \<and> lookup2 w' ''auth_status'' ''value'' = Some (PStr ''Error: connection reset'')
      \<and> lookup2 w' ''auth_link'' ''value'' = Some (PStr ''''))
   \<and> update_build_config demo_self
        (demo_vendor (Inl (Exn NoItemsFound ''no connection'')) (Inr [''API_KEY'']) (Inr ''''))
        (PStr '''') (Some ''app_names'') demo_world
      = andthen
          (try_except
             (auth_scheme_check
                (demo_vendor (Inl (Exn NoItemsFound ''no connection'')) (Inr [''API_KEY'']) (Inr ''''))
                (ToolSet ''key'') (Entity (ToolSet ''key'') (entity_id demo_self)) ''GITHUB'')
             is_Exception auth_status_error)
          (\<lambda>_. update_action_names
             (demo_vendor (Inl (Exn NoItemsFound ''no connection'')) (Inr [''API_KEY'']) (Inr ''''))
             ''GITHUB'')
          (demo_world\<lparr>calls := calls demo_world @
             [CallComposioToolSet ''key'', CallGetEntity (ToolSet ''key'') (entity_id demo_self),
              CallGetConnection (Entity (ToolSet ''key'') (entity_id demo_self)) ''GITHUB'']\<rparr>)
   \<and> check_for_authorization demo_self
        (demo_vendor (Inl (Exn OtherException ''connection reset'')) (Inr [''API_KEY'']) (Inr ''''))
        ''GITHUB'' demo_world
      = handle_authorization_failure demo_self
          (demo_vendor (Inl (Exn OtherException ''connection reset'')) (Inr [''API_KEY'']) (Inr ''''))
          (ToolSet ''key'') (Entity (ToolSet ''key'') (entity_id demo_self)) ''GITHUB''
          (demo_world\<lparr>calls := calls demo_world @
             [CallComposioToolSet ''key'', CallGetEntity (ToolSet ''key'') (entity_id demo_self),
              CallGetConnection (Entity (ToolSet ''key'') (entity_id demo_self)) ''GITHUB'']\<rparr>)"
proof -
  let ?e1 = "Exn OtherException ''connection reset''"
  let ?e2 = "Exn NoItemsFound ''no connection''"
  let ?v1 = "demo_vendor (Inl ?e1) (Inr [''API_KEY'']) (Inr '''')"
  let ?v2 = "demo_vendor (Inl ?e2) (Inr [''API_KEY'']) (Inr '''')"
  let ?ts = "ToolSet ''key''"
  let ?en = "Entity (ToolSet ''key'') (entity_id demo_self)"
  let ?w3 = "demo_world\<lparr>calls := calls demo_world @
      [CallComposioToolSet ''key'', CallGetEntity ?ts (entity_id demo_self),
       CallGetConnection ?en ''GITHUB'']\<rparr>"
  have k: "api_key demo_self = Some ''key''" "''key'' \<noteq> ''''"
    by (simp_all add: demo_self_def)
  have t1: "v_ComposioToolSet ?v1 ''key'' = Inr ()"
    and g1: "v_get_entity ?v1 ?ts (entity_id demo_self) = Inr ()"
    and c1: "v_get_connection ?v1 ?en ''GITHUB'' = Inl ?e1"
    and t2: "v_ComposioToolSet ?v2 ''key'' = Inr ()"
    and g2: "v_get_entity ?v2 ?ts (entity_id demo_self) = Inr ()"
    and c2: "v_get_connection ?v2 ?en ''GITHUB'' = Inl ?e2"
    by (simp_all add: demo_vendor_def)
  have n: "''GITHUB'' = get_normalized_app_name demo_self" by (simp add: demo_normalized)
  have w3: "?w3 = ?w3" by (rule refl)
  have cls1: "exn_cls ?e1 \<noteq> NoItemsFound" and cls2: "exn_cls ?e2 = NoItemsFound" by simp_all
  note i1 = lookup_exception_taxonomy[OF k t1 g1 c1 n w3 demo_fields(1,2,3), where fv = "PStr ''''"]
  note i2 = lookup_exception_taxonomy[OF k t2 g2 c2 n w3 demo_fields(1,2,3), where fv = "PStr ''''"]
  from i1[THEN conjunct2, THEN conjunct1, THEN mp, OF cls1]
  have a: "\<exists>w'. update_build_config demo_self ?v1 (PStr '''') (Some ''app_names'') demo_world = (Inr (), w')
      \<and> calls w' = [CallComposioToolSet ''key'', CallGetEntity (ToolSet ''key'') ''default'',
           CallGetConnection (Entity (ToolSet ''key'') ''default'') ''GITHUB'']
      \<and> lookup2 w' ''auth_status'' ''value'' = Some (PStr ''Error: connection reset'')
      \<and> lookup2 w' ''auth_link'' ''value'' = Some (PStr '''')"
    by (simp add: demo_ids demo_world_def)
  have b: "update_build_config demo_self ?v2 (PStr '''') (Some ''app_names'') demo_world
      = andthen (try_except (auth_scheme_check ?v2 ?ts ?en ''GITHUB'') is_Exception auth_status_error)
          (\<lambda>_. update_action_names ?v2 ''GITHUB'') ?w3"
    using i2[THEN conjunct1, THEN mp, OF cls2] .
  have c: "check_for_authorization demo_self ?v1 ''GITHUB'' demo_world
      = handle_authorization_failure demo_self ?v1 ?ts ?en ''GITHUB'' ?w3"
    using i1[THEN conjunct2, THEN conjunct2] .
  from a b c show ?thesis by (intro conjI)
qed

text \<open>
  C7, counterexample on \<open>_check_for_authorization\<close>: a lookup failure that is not
  \<^verbatim>\<open>NoItemsFound\<close> is not turned into an error string; the auth schemes are inspected and
  the API-key status is returned.
\<close>

theorem check_for_authorization_lookup_counterexample:
  "check_for_authorization demo_self
     (demo_vendor (Inl (Exn OtherException ''connection reset'')) (Inr [''API_KEY'']) (Inr ''''))
     ''GITHUB'' demo_world
   = (Inr ''Enter API Key'',
      demo_world\<lparr>calls := [CallComposioToolSet ''key'', CallGetEntity (ToolSet ''key'') ''default'',
         CallGetConnection (Entity (ToolSet ''key'') ''default'') ''GITHUB'',
         CallAppsGet (ToolSet ''key'') ''GITHUB'']\<rparr>)"
  by (simp add: check_for_authorization_def handle_authorization_failure_def
      authorization_fallback_def process_api_key_auth_def Let_def demo_ids demo_vendor_def
      demo_self_def demo_world_def prog_defs meth_defs startswith_def)

text \<open>
  C8. After an \<open>api_key\<close> update with a non-empty key (toolset, entity and connection
  listing succeeding, the \<open>app_names\<close> field present), the options of \<open>app_names\<close> are the
  connected apps, each with the suffix \<open>_CONNECTED\<close>, followed by the other apps, both in
  catalog order; together they are every app of the catalog exactly once. An app counts
  as connected when its lowercase name is among the \<open>appUniqueId\<close>s of the entity's
  connections. The value is the first connected entry, or the empty string when there is
  none. The catalog's names are distinct, being the keys of a dictionary.
\<close>

theorem app_names_connected_first:
  assumes "api_key self = Some k" "k \<noteq> ''''"
    and "v_ComposioToolSet v k = Inr ()"
    and "v_get_entity v (ToolSet k) (entity_id self) = Inr ()"
    and "v_get_connections v (Entity (ToolSet k) (entity_id self)) = Inr connections"
    and "config w ''app_names'' = Some fn"
    and "distinct (App_annotations v)"
  shows "\<exists>w' cs ns. update_build_config self v fv (Some ''api_key'') w = (Inr (), w')
     \<and> cs = filter (\<lambda>app_name. lower app_name \<in> set connections) (App_annotations v)
     \<and> ns = filter (\<lambda>app_name. lower app_name \<notin> set connections) (App_annotations v)
     \<and> lookup2 w' ''app_names'' ''options''
         = Some (PList (map (\<lambda>app_name. app_name @ ''_CONNECTED'') cs @ ns))
     \<and> distinct (cs @ ns) \<and> set (cs @ ns) = set (App_annotations v)
     \<and> lookup2 w' ''app_names'' ''value''
         = Some (PStr (case cs of [] \<Rightarrow> '''' | a # _ \<Rightarrow> a @ ''_CONNECTED''))"
proof -
  let ?cs = "filter (\<lambda>app_name. lower app_name \<in> set connections) (App_annotations v)"
  let ?ns = "filter (\<lambda>app_name. lower app_name \<notin> set connections) (App_annotations v)"
  let ?w' = "w\<lparr>config := (config w)(''app_names'' \<mapsto>
        fn(''options'' \<mapsto> PList (map (\<lambda>app_name. app_name @ ''_CONNECTED'') ?cs @ ?ns),
           ''value'' \<mapsto> PStr (case ?cs of [] \<Rightarrow> '''' | a # _ \<Rightarrow> a @ ''_CONNECTED''))),
      calls := calls w @ [CallComposioToolSet k, CallGetEntity (ToolSet k) (entity_id self),
        CallGetConnections (Entity (ToolSet k) (entity_id self))]\<rparr>"
  have run: "update_build_config self v fv (Some ''api_key'') w = (Inr (), ?w')"
    using assms(1-6)
    by (simp add: update_build_config_def has_api_key_def update_app_names_with_connected_status_def
        get_connected_app_names_for_entity_def connected_options_def non_connected_options_def
        first_of_map Let_def prog_defs meth_defs)
  have opts: "lookup2 ?w' ''app_names'' ''options''
      = Some (PList (map (\<lambda>app_name. app_name @ ''_CONNECTED'') ?cs @ ?ns))"
    and val: "lookup2 ?w' ''app_names'' ''value''
      = Some (PStr (case ?cs of [] \<Rightarrow> '''' | a # _ \<Rightarrow> a @ ''_CONNECTED''))"
    by (simp_all add: lookup2_def)
  from partition_covers[OF assms(7), of "\<lambda>app_name. lower app_name \<in> set connections"]
  have cover: "distinct (?cs @ ?ns) \<and> set (?cs @ ?ns) = set (App_annotations v)" .
  from run opts val cover show ?thesis by (intro exI[of _ ?w'] exI[of _ ?cs] exI[of _ ?ns]) simp
qed

theorem app_names_connected_first_witness:
  "\<exists>w'. update_build_config demo_self (demo_vendor (Inr ()) (Inr []) (Inr '''')) (PStr ''key'')
        (Some ''api_key'') demo_world = (Inr (), w')
     \<and> lookup2 w' ''app_names'' ''options''
         = Some (PList [''GITHUB_CONNECTED'', ''SLACK_CONNECTED'', ''GMAIL'', ''NOTION''])
     \<and> lookup2 w' ''app_names'' ''value'' = Some (PStr ''GITHUB_CONNECTED'')"
proof -
  let ?v = "demo_vendor (Inr ()) (Inr []) (Inr '''')"
  let ?conns = "[''github'', ''slack'', ''github'']"
  have k: "api_key demo_self = Some ''key''" "''key'' \<noteq> ''''"
    by (simp_all add: demo_self_def)
  have t: "v_ComposioToolSet ?v ''key'' = Inr ()"
    and e: "v_get_entity ?v (ToolSet ''key'') (entity_id demo_self) = Inr ()"
    and c: "v_get_connections ?v (Entity (ToolSet ''key'') (entity_id demo_self)) = Inr ?conns"
    by (simp_all add: demo_vendor_def)
  have d: "distinct (App_annotations ?v)" by (simp add: demo_vendor_def)
  have cs: "filter (\<lambda>app_name. lower app_name \<in> set ?conns) (App_annotations ?v)
      = [''GITHUB'', ''SLACK'']"
    by (simp add: demo_vendor_def lower_def lower_char_def)
  have ns: "filter (\<lambda>app_name. lower app_name \<notin> set ?conns) (App_annotations ?v)
      = [''GMAIL'', ''NOTION'']"
    by (simp add: demo_vendor_def lower_def lower_char_def)
  from app_names_connected_first[OF k t e c demo_fields(4) d, of "PStr ''key''"]
  obtain w' where
    "update_build_config demo_self ?v (PStr ''key'') (Some ''api_key'') demo_world = (Inr (), w')"
    "lookup2 w' ''app_names'' ''options''
       = Some (PList (map (\<lambda>app_name. app_name @ ''_CONNECTED'')
           (filter (\<lambda>app_name. lower app_name \<in> set ?conns) (App_annotations ?v))
           @ filter (\<lambda>app_name. lower app_name \<notin> set ?conns) (App_annotations ?v)))"
    "lookup2 w' ''app_names'' ''value''
       = Some (PStr (case filter (\<lambda>app_name. lower app_name \<in> set ?conns) (App_annotations ?v) of
           [] \<Rightarrow> '''' | a # _ \<Rightarrow> a @ ''_CONNECTED''))"
    by (elim exE conjE) simp
  then show ?thesis unfolding cs ns by (intro exI[of _ w']) simp
qed

text \<open>
  C9. \<open>build_tool\<close> builds the toolset and returns what the vendor's \<open>get_tools\<close> gives for
  the selected action names: the same list when it returns, the same exception when it
  raises, and the exception of the toolset constructor when that raises. It makes these
  vendor calls on every run and leaves the configuration alone.
\<close>

theorem build_tool_passthrough:
  assumes "api_key self = Some k"
  shows "(v_ComposioToolSet v k = Inr ()
          \<longrightarrow> build_tool self v w
              = (v_get_tools v (ToolSet k) (action_names self),
                 w\<lparr>calls := calls w @ [CallComposioToolSet k, CallGetTools (ToolSet k) (action_names self)]\<rparr>))
     \<and> (\<forall>e. v_ComposioToolSet v k = Inl e
          \<longrightarrow> build_tool self v w = (Inl e, w\<lparr>calls := calls w @ [CallComposioToolSet k]\<rparr>))"
  using assms
  by (simp add: build_tool_def build_wrapper_def prog_defs)

theorem build_tool_passthrough_witness:
  "build_tool demo_self (demo_vendor (Inr ()) (Inr []) (Inr '''')) demo_world
     = (Inr [''GITHUB_STAR_REPO''],
        demo_world\<lparr>calls := calls demo_world @
          [CallComposioToolSet ''key'', CallGetTools (ToolSet ''key'') [''GITHUB_STAR_REPO'']]\<rparr>)
   \<and> build_tool demo_self
        ((demo_vendor (Inr ()) (Inr []) (Inr ''''))
           \<lparr>v_get_tools := (\<lambda>_ _. Inl (Exn OtherException ''rate limit''))\<rparr>) demo_world
     = (Inl (Exn OtherException ''rate limit''),
        demo_world\<lparr>calls := calls demo_world @
          [CallComposioToolSet ''key'', CallGetTools (ToolSet ''key'') [''GITHUB_STAR_REPO'']]\<rparr>)
   \<and> build_tool demo_self
        ((demo_vendor (Inr ()) (Inr []) (Inr ''''))
           \<lparr>v_ComposioToolSet := (\<lambda>_. Inl (Exn OtherException ''bad key''))\<rparr>) demo_world
     = (Inl (Exn OtherException ''bad key''),
        demo_world\<lparr>calls := calls demo_world @ [CallComposioToolSet ''key'']\<rparr>)"
proof -
  let ?v = "demo_vendor (Inr ()) (Inr []) (Inr '''')"
  let ?v1 = "?v\<lparr>v_get_tools := (\<lambda>_ _. Inl (Exn OtherException ''rate limit''))\<rparr>"
  let ?v2 = "?v\<lparr>v_ComposioToolSet := (\<lambda>_. Inl (Exn OtherException ''bad key''))\<rparr>"
  have k: "api_key demo_self = Some ''key''" by (simp add: demo_self_def)
  have a: "action_names demo_self = [''GITHUB_STAR_REPO'']" by (simp add: demo_self_def)
  have t: "v_ComposioToolSet ?v ''key'' = Inr ()" "v_ComposioToolSet ?v1 ''key'' = Inr ()"
    "v_ComposioToolSet ?v2 ''key'' = Inl (Exn OtherException ''bad key'')"
    by (simp_all add: demo_vendor_def)
  have g: "v_get_tools ?v (ToolSet ''key'') [''GITHUB_STAR_REPO''] = Inr [''GITHUB_STAR_REPO'']"
    "v_get_tools ?v1 (ToolSet ''key'') [''GITHUB_STAR_REPO''] = Inl (Exn OtherException ''rate limit'')"
    by (simp_all add: demo_vendor_def)
  have r0: "build_tool demo_self ?v demo_world
     = (Inr [''GITHUB_STAR_REPO''],
        demo_world\<lparr>calls := calls demo_world @
          [CallComposioToolSet ''key'', CallGetTools (ToolSet ''key'') [''GITHUB_STAR_REPO'']]\<rparr>)"
    using build_tool_passthrough[OF k, of ?v demo_world] t(1) g(1) a by simp
  have r1: "build_tool demo_self ?v1 demo_world
     = (Inl (Exn OtherException ''rate limit''),
        demo_world\<lparr>calls := calls demo_world @
          [CallComposioToolSet ''key'', CallGetTools (ToolSet ''key'') [''GITHUB_STAR_REPO'']]\<rparr>)"
    using build_tool_passthrough[OF k, of ?v1 demo_world] t(2) g(2) a by simp
  have r2: "build_tool demo_self ?v2 demo_world
     = (Inl (Exn OtherException ''bad key''),
        demo_world\<lparr>calls := calls demo_world @ [CallComposioToolSet ''key'']\<rparr>)"
    using build_tool_passthrough[OF k, of ?v2 demo_world] t(3) by simp
  from r0 r1 r2 show ?thesis by simp
qed

text \<open>
  C10. For a field name other than \<open>api_key\<close> and \<open>app_names\<close>, and whenever the
  component has no \<open>api_key\<close> attribute or an empty one, \<open>update_build_config\<close> returns
  with the configuration unchanged and without any vendor call.
\<close>

theorem update_build_config_frame:
  "field_name \<noteq> Some ''api_key'' \<and> field_name \<noteq> Some ''app_names''
     \<or> api_key self = None \<or> api_key self = Some ''''
   \<Longrightarrow> update_build_config self v fv field_name w = (Inr (), w)"
  by (auto simp: update_build_config_def has_api_key_def ret_def)

theorem update_build_config_frame_witness:
  "update_build_config demo_self (demo_vendor (Inr ()) (Inr []) (Inr '''')) (PStr ''x'')
      (Some ''auth_status'') demo_world = (Inr (), demo_world)
   \<and> update_build_config (demo_self\<lparr>api_key := Some ''''\<rparr>) (demo_vendor (Inr ()) (Inr []) (Inr ''''))
      (PStr '''') (Some ''app_names'') demo_world = (Inr (), demo_world)
   \<and> update_build_config (demo_self\<lparr>api_key := None\<rparr>) (demo_vendor (Inr ()) (Inr []) (Inr ''''))
      (PStr '''') (Some ''api_key'') demo_world = (Inr (), demo_world)
   \<and> update_build_config demo_self (demo_vendor (Inr ()) (Inr []) (Inr '''')) (PStr ''x'')
      None demo_world = (Inr (), demo_world)"
proof -
  let ?v = "demo_vendor (Inr ()) (Inr []) (Inr '''')"
  have a: "update_build_config demo_self ?v (PStr ''x'') (Some ''auth_status'') demo_world
      = (Inr (), demo_world)"
    by (rule update_build_config_frame) simp
  have b: "update_build_config (demo_self\<lparr>api_key := Some ''''\<rparr>) ?v (PStr '''')
      (Some ''app_names'') demo_world = (Inr (), demo_world)"
    by (rule update_build_config_frame) simp
  have c: "update_build_config (demo_self\<lparr>api_key := None\<rparr>) ?v (PStr '''')
      (Some ''api_key'') demo_world = (Inr (), demo_world)"
    by (rule update_build_config_frame) simp
  have d: "update_build_config demo_self ?v (PStr ''x'') None demo_world = (Inr (), demo_world)"
    by (rule update_build_config_frame) simp
  from a b c d show ?thesis by simp
qed

end
